theory Spec2Isabelle
  imports Main "HOL-Library.Word"
begin

unbundle bit_operations_syntax

section \<open>Errors and effectful operations\<close>

text \<open>
  Every exception of the program is a value.  The first four kinds are the error taxonomy of
  the register access layer; \<open>ValueError\<close> is what \<^verbatim>\<open>bytearray.append\<close> raises for an
  integer outside \<open>range(256)\<close> and \<open>UnicodeDecodeError\<close> what \<^verbatim>\<open>decode\<close> raises on
  bytes that are not UTF-8.
\<close>

datatype transport_error = Timeout | ShortRead | PortError

datatype error =
    EncodingError
  | TransportError transport_error
  | FrameError string
  | DeviceExceptionError nat
  | ValueError
  | UnicodeDecodeError

text \<open>
  A method call runs on a state \<open>'s\<close> (the instrument object together with whatever is
  behind its serial port), returns the state it leaves behind, and either a value or the
  exception it raised.
\<close>

type_synonym ('s, 'a) action = "'s \<Rightarrow> (error + 'a) \<times> 's"

definition return_op :: "'a \<Rightarrow> ('s, 'a) action" where
  "return_op v s = (Inr v, s)"

definition raise_op :: "error \<Rightarrow> ('s, 'a) action" where
  "raise_op e s = (Inl e, s)"

definition bind_op :: "('s, 'a) action \<Rightarrow> ('a \<Rightarrow> ('s, 'b) action) \<Rightarrow> ('s, 'b) action" where
  "bind_op m f s = (case m s of (Inl e, s') \<Rightarrow> (Inl e, s') | (Inr v, s') \<Rightarrow> f v s')"

text \<open>
  The bound method \<^verbatim>\<open>self.retriable_read_register(registeraddress, number_of_decimals,
  functioncode, signed)\<close> is inherited from \<^verbatim>\<open>RetriableInstrument\<close>; the getters below take
  it as their first argument.
\<close>

type_synonym 's read_register = "int \<Rightarrow> int \<Rightarrow> int \<Rightarrow> bool \<Rightarrow> ('s, int) action"

section \<open>The getters of \<^verbatim>\<open>RenogyChargeController\<close>\<close>

text \<open>Python's \<^verbatim>\<open>x >> n\<close> on unbounded integers is \<open>drop_bit n x\<close>, \<^verbatim>\<open>x & m\<close> is \<open>x AND m\<close>.\<close>

definition get_controller_voltage_rating :: "'s read_register \<Rightarrow> ('s, int) action" where
  "get_controller_voltage_rating read =
     bind_op (read 0x0A 0 3 False) (\<lambda>v. return_op (drop_bit 8 (v AND 0xFF00)))"

definition get_controller_current_rating :: "'s read_register \<Rightarrow> ('s, int) action" where
  "get_controller_current_rating read =
     bind_op (read 0x0A 0 3 False) (\<lambda>v. return_op (v AND 0x00FF))"

definition get_controller_discharge_rating :: "'s read_register \<Rightarrow> ('s, int) action" where
  "get_controller_discharge_rating read =
     bind_op (read 0x0B 0 3 False) (\<lambda>v. return_op (drop_bit 8 (v AND 0xFF00)))"

definition get_controller_type :: "'s read_register \<Rightarrow> ('s, int) action" where
  "get_controller_type read =
     bind_op (read 0x0B 0 3 False) (\<lambda>v. return_op (v AND 0x00FF))"

definition get_battery_state_of_charge :: "'s read_register \<Rightarrow> ('s, int) action" where
  "get_battery_state_of_charge read = read 0x0100 0 3 False"

definition get_battery_temperature :: "'s read_register \<Rightarrow> ('s, int) action" where
  "get_battery_temperature read =
     bind_op (read 0x0103 0 3 False) (\<lambda>register_value.
       let battery_temperature = register_value AND 0b0000000001111111;
           battery_temperature_sign = drop_bit 7 (register_value AND 0b0000000010000000);
           battery_temperature =
             (if battery_temperature_sign = 1 then - battery_temperature
              else battery_temperature)
       in return_op battery_temperature)"

definition get_controller_temperature :: "'s read_register \<Rightarrow> ('s, int) action" where
  "get_controller_temperature read =
     bind_op (read 0x0103 0 3 False) (\<lambda>register_value.
       let controller_temperature = drop_bit 8 (register_value AND 0b0111111100000000);
           controller_temperature_sign = drop_bit 15 (register_value AND 0b1000000000000000);
           controller_temperature =
             (if controller_temperature_sign = 1 then - controller_temperature
              else controller_temperature)
       in return_op controller_temperature)"

text \<open>The getters that hand the result of the read back as it is.\<close>

definition get_controller_modbus_address :: "'s read_register \<Rightarrow> ('s, int) action" where
  "get_controller_modbus_address read = read 0x1A 0 3 False"

definition get_solar_voltage :: "'s read_register \<Rightarrow> ('s, int) action" where
  "get_solar_voltage read = read 0x0107 1 3 False"

definition get_solar_current :: "'s read_register \<Rightarrow> ('s, int) action" where
  "get_solar_current read = read 0x0108 2 3 False"

definition get_solar_power :: "'s read_register \<Rightarrow> ('s, int) action" where
  "get_solar_power read = read 0x0109 0 3 False"

definition get_load_voltage :: "'s read_register \<Rightarrow> ('s, int) action" where
  "get_load_voltage read = read 0x0104 1 3 False"

definition get_load_current :: "'s read_register \<Rightarrow> ('s, int) action" where
  "get_load_current read = read 0x0105 2 3 False"

definition get_load_power :: "'s read_register \<Rightarrow> ('s, int) action" where
  "get_load_power read = read 0x0106 0 3 False"

definition get_battery_voltage :: "'s read_register \<Rightarrow> ('s, int) action" where
  "get_battery_voltage read = read 0x0101 1 3 False"

definition get_battery_current :: "'s read_register \<Rightarrow> ('s, int) action" where
  "get_battery_current read = read 0x102 2 3 False"

definition get_maximum_solar_power_today :: "'s read_register \<Rightarrow> ('s, int) action" where
  "get_maximum_solar_power_today read = read 0x010F 0 3 False"

definition get_minimum_solar_power_today :: "'s read_register \<Rightarrow> ('s, int) action" where
  "get_minimum_solar_power_today read = read 0x0110 0 3 False"

definition get_maximum_battery_voltage_today :: "'s read_register \<Rightarrow> ('s, int) action" where
  "get_maximum_battery_voltage_today read = read 0x010C 1 3 False"

definition get_minimum_battery_voltage_today :: "'s read_register \<Rightarrow> ('s, int) action" where
  "get_minimum_battery_voltage_today read = read 0x010B 1 3 False"

definition get_maximum_charge_current_today :: "'s read_register \<Rightarrow> ('s, int) action" where
  "get_maximum_charge_current_today read = read 0x010D 0 3 False"

definition get_maximum_load_current_today :: "'s read_register \<Rightarrow> ('s, int) action" where
  "get_maximum_load_current_today read = read 0x010E 0 3 False"

definition get_charge_today :: "'s read_register \<Rightarrow> ('s, int) action" where
  "get_charge_today read = read 0x111 0 3 False"

definition get_discharge_today :: "'s read_register \<Rightarrow> ('s, int) action" where
  "get_discharge_today read = read 0x112 0 3 False"

definition get_charge_energy_today :: "'s read_register \<Rightarrow> ('s, int) action" where
  "get_charge_energy_today read = read 0x113 0 3 False"

definition get_discharge_energy_today :: "'s read_register \<Rightarrow> ('s, int) action" where
  "get_discharge_energy_today read = read 0x114 0 3 False"

definition get_controller_uptime :: "'s read_register \<Rightarrow> ('s, int) action" where
  "get_controller_uptime read = read 0x115 0 3 False"

definition get_total_battery_overcharges :: "'s read_register \<Rightarrow> ('s, int) action" where
  "get_total_battery_overcharges read = read 0x116 0 3 False"

definition get_total_battery_full_charges :: "'s read_register \<Rightarrow> ('s, int) action" where
  "get_total_battery_full_charges read = read 0x117 0 3 False"

text \<open>The version getters return a Python tuple of the two reads, left component first.\<close>

definition get_controller_software_version :: "'s read_register \<Rightarrow> ('s, int \<times> int) action" where
  "get_controller_software_version read =
     bind_op (read 0x14 0 3 False) (\<lambda>a.
       bind_op (read 0x15 0 3 False) (\<lambda>b. return_op (a, b)))"

definition get_controller_hardware_version :: "'s read_register \<Rightarrow> ('s, int \<times> int) action" where
  "get_controller_hardware_version read =
     bind_op (read 0x16 0 3 False) (\<lambda>a.
       bind_op (read 0x17 0 3 False) (\<lambda>b. return_op (a, b)))"

subsection \<open>Byte assembly\<close>

text \<open>
  A \<^verbatim>\<open>bytearray\<close> is a list of bytes.  \<^verbatim>\<open>bytearray.append(x)\<close> raises \<open>ValueError\<close>
  unless \<open>0 \<le> x < 256\<close>.
\<close>

type_synonym byte = "8 word"

definition bytearray_append :: "byte list \<Rightarrow> int \<Rightarrow> error + byte list" where
  "bytearray_append output x =
     (if 0 \<le> x \<and> x < 256 then Inr (output @ [word_of_int x]) else Inl ValueError)"

definition lift_result :: "error + 'a \<Rightarrow> ('s, 'a) action" where
  "lift_result r = (case r of Inl e \<Rightarrow> raise_op e | Inr v \<Rightarrow> return_op v)"

text \<open>Python's \<^verbatim>\<open>range(a, b)\<close> for the step 1.\<close>

definition range_py :: "int \<Rightarrow> int \<Rightarrow> int list" where
  "range_py a b = [a..b - 1]"

text \<open>
  The loop of \<^verbatim>\<open>get_controller_model\<close> and of \<^verbatim>\<open>get_controller_serial_number\<close> (the two
  loops differ in their range only):
  \<^verbatim>\<open>for reg in ...: word = self.retriable_read_register(reg, 0, 3, False);
  output.append((word & 0xFF00) >> 8); output.append(word & 0x00FF)\<close>.
\<close>

fun append_registers :: "'s read_register \<Rightarrow> int list \<Rightarrow> byte list \<Rightarrow> ('s, byte list) action" where
  "append_registers read [] output = return_op output"
| "append_registers read (reg # regs) output =
     bind_op (read reg 0 3 False) (\<lambda>word.
       bind_op (lift_result (bytearray_append output (drop_bit 8 (word AND 0xFF00)))) (\<lambda>output.
         bind_op (lift_result (bytearray_append output (word AND 0x00FF))) (\<lambda>output.
           append_registers read regs output)))"

subsection \<open>Strict UTF-8 decoding\<close>

text \<open>
  \<^verbatim>\<open>output.decode(encoding='utf-8')\<close> is Python's strict decoder: it accepts the well-formed
  byte sequences of the Unicode standard (no overlong forms, no surrogates, nothing above
  U+10FFFF) and raises \<open>UnicodeDecodeError\<close> on anything else.  A Python \<^verbatim>\<open>str\<close> is the
  list of its code points.
\<close>

type_synonym py_str = "nat list"

definition is_continuation :: "byte \<Rightarrow> bool" where
  "is_continuation b = (0x80 \<le> b \<and> b \<le> 0xBF)"

definition payload :: "byte \<Rightarrow> nat" where
  "payload b = unat (b AND 0x3F)"

fun utf8_decode :: "byte list \<Rightarrow> py_str option" where
  "utf8_decode [] = Some []"
| "utf8_decode (b # bs) =
     (if b < 0x80 then map_option ((#) (unat b)) (utf8_decode bs)
      else if 0xC2 \<le> b \<and> b \<le> 0xDF then
        (case bs of
           c1 # rest \<Rightarrow>
             if is_continuation c1
             then map_option ((#) (unat (b AND 0x1F) * 64 + payload c1)) (utf8_decode rest)
             else None
         | _ \<Rightarrow> None)
      else if 0xE0 \<le> b \<and> b \<le> 0xEF then
        (case bs of
           c1 # c2 # rest \<Rightarrow>
             if (if b = 0xE0 then 0xA0 \<le> c1 \<and> c1 \<le> 0xBF
                 else if b = 0xED then 0x80 \<le> c1 \<and> c1 \<le> 0x9F
                 else is_continuation c1) \<and> is_continuation c2
             then map_option
                    ((#) (unat (b AND 0x0F) * 4096 + payload c1 * 64 + payload c2))
                    (utf8_decode rest)
             else None
         | _ \<Rightarrow> None)
      else if 0xF0 \<le> b \<and> b \<le> 0xF4 then
        (case bs of
           c1 # c2 # c3 # rest \<Rightarrow>
             if (if b = 0xF0 then 0x90 \<le> c1 \<and> c1 \<le> 0xBF
                 else if b = 0xF4 then 0x80 \<le> c1 \<and> c1 \<le> 0x8F
                 else is_continuation c1) \<and> is_continuation c2 \<and> is_continuation c3
             then map_option
                    ((#) (unat (b AND 0x07) * 262144 + payload c1 * 4096
                            + payload c2 * 64 + payload c3))
                    (utf8_decode rest)
             else None
         | _ \<Rightarrow> None)
      else None)"

definition bytearray_decode :: "byte list \<Rightarrow> error + py_str" where
  "bytearray_decode output =
     (case utf8_decode output of None \<Rightarrow> Inl UnicodeDecodeError | Some text \<Rightarrow> Inr text)"

text \<open>The code points of a string literal, to write expected results down.\<close>

definition str_of :: "string \<Rightarrow> py_str" where
  "str_of cs = map of_char cs"

subsection \<open>The getters built on the loop\<close>

definition get_controller_model :: "'s read_register \<Rightarrow> ('s, py_str) action" where
  "get_controller_model read =
     bind_op (append_registers read (range_py 0x0C (0x13 + 1)) []) (\<lambda>output.
       lift_result (bytearray_decode output))"

definition get_controller_serial_number :: "'s read_register \<Rightarrow> ('s, byte list) action" where
  "get_controller_serial_number read =
     append_registers read (range_py 0x18 (0x19 + 1)) []"

section \<open>The public surface as a whole\<close>

text \<open>
  The class has 33 getters.  \<open>run_getter\<close> calls the one that is named; the result is a
  Python value of one of four shapes.
\<close>

datatype py_value = PyInt int | PyStr py_str | PyBytes "byte list" | PyTuple "int \<times> int"

datatype getter =
    Controller_voltage_rating
  | Controller_current_rating
  | Controller_discharge_rating
  | Controller_type
  | Controller_model
  | Controller_software_version
  | Controller_hardware_version
  | Controller_serial_number
  | Controller_modbus_address
  | Solar_voltage
  | Solar_current
  | Solar_power
  | Load_voltage
  | Load_current
  | Load_power
  | Battery_voltage
  | Battery_current
  | Battery_state_of_charge
  | Battery_temperature
  | Controller_temperature
  | Maximum_solar_power_today
  | Minimum_solar_power_today
  | Maximum_battery_voltage_today
  | Minimum_battery_voltage_today
  | Maximum_charge_current_today
  | Maximum_load_current_today
  | Charge_today
  | Discharge_today
  | Charge_energy_today
  | Discharge_energy_today
  | Controller_uptime
  | Total_battery_overcharges
  | Total_battery_full_charges

primrec run_getter :: "getter \<Rightarrow> 's read_register \<Rightarrow> ('s, py_value) action" where
  "run_getter Controller_voltage_rating read =
     bind_op (get_controller_voltage_rating read) (\<lambda>v. return_op (PyInt v))"
| "run_getter Controller_current_rating read =
     bind_op (get_controller_current_rating read) (\<lambda>v. return_op (PyInt v))"
| "run_getter Controller_discharge_rating read =
     bind_op (get_controller_discharge_rating read) (\<lambda>v. return_op (PyInt v))"
| "run_getter Controller_type read =
     bind_op (get_controller_type read) (\<lambda>v. return_op (PyInt v))"
| "run_getter Controller_model read =
     bind_op (get_controller_model read) (\<lambda>v. return_op (PyStr v))"
| "run_getter Controller_software_version read =
     bind_op (get_controller_software_version read) (\<lambda>v. return_op (PyTuple v))"
| "run_getter Controller_hardware_version read =
     bind_op (get_controller_hardware_version read) (\<lambda>v. return_op (PyTuple v))"
| "run_getter Controller_serial_number read =
     bind_op (get_controller_serial_number read) (\<lambda>v. return_op (PyBytes v))"
| "run_getter Controller_modbus_address read =
     bind_op (get_controller_modbus_address read) (\<lambda>v. return_op (PyInt v))"
| "run_getter Solar_voltage read =
     bind_op (get_solar_voltage read) (\<lambda>v. return_op (PyInt v))"
| "run_getter Solar_current read =
     bind_op (get_solar_current read) (\<lambda>v. return_op (PyInt v))"
| "run_getter Solar_power read =
     bind_op (get_solar_power read) (\<lambda>v. return_op (PyInt v))"
| "run_getter Load_voltage read =
     bind_op (get_load_voltage read) (\<lambda>v. return_op (PyInt v))"
| "run_getter Load_current read =
     bind_op (get_load_current read) (\<lambda>v. return_op (PyInt v))"
| "run_getter Load_power read =
     bind_op (get_load_power read) (\<lambda>v. return_op (PyInt v))"
| "run_getter Battery_voltage read =
     bind_op (get_battery_voltage read) (\<lambda>v. return_op (PyInt v))"
| "run_getter Battery_current read =
     bind_op (get_battery_current read) (\<lambda>v. return_op (PyInt v))"
| "run_getter Battery_state_of_charge read =
     bind_op (get_battery_state_of_charge read) (\<lambda>v. return_op (PyInt v))"
| "run_getter Battery_temperature read =
     bind_op (get_battery_temperature read) (\<lambda>v. return_op (PyInt v))"
| "run_getter Controller_temperature read =
     bind_op (get_controller_temperature read) (\<lambda>v. return_op (PyInt v))"
| "run_getter Maximum_solar_power_today read =
     bind_op (get_maximum_solar_power_today read) (\<lambda>v. return_op (PyInt v))"
| "run_getter Minimum_solar_power_today read =
     bind_op (get_minimum_solar_power_today read) (\<lambda>v. return_op (PyInt v))"
| "run_getter Maximum_battery_voltage_today read =
     bind_op (get_maximum_battery_voltage_today read) (\<lambda>v. return_op (PyInt v))"
| "run_getter Minimum_battery_voltage_today read =
     bind_op (get_minimum_battery_voltage_today read) (\<lambda>v. return_op (PyInt v))"
| "run_getter Maximum_charge_current_today read =
     bind_op (get_maximum_charge_current_today read) (\<lambda>v. return_op (PyInt v))"
| "run_getter Maximum_load_current_today read =
     bind_op (get_maximum_load_current_today read) (\<lambda>v. return_op (PyInt v))"
| "run_getter Charge_today read =
     bind_op (get_charge_today read) (\<lambda>v. return_op (PyInt v))"
| "run_getter Discharge_today read =
     bind_op (get_discharge_today read) (\<lambda>v. return_op (PyInt v))"
| "run_getter Charge_energy_today read =
     bind_op (get_charge_energy_today read) (\<lambda>v. return_op (PyInt v))"
| "run_getter Discharge_energy_today read =
     bind_op (get_discharge_energy_today read) (\<lambda>v. return_op (PyInt v))"
| "run_getter Controller_uptime read =
     bind_op (get_controller_uptime read) (\<lambda>v. return_op (PyInt v))"
| "run_getter Total_battery_overcharges read =
     bind_op (get_total_battery_overcharges read) (\<lambda>v. return_op (PyInt v))"
| "run_getter Total_battery_full_charges read =
     bind_op (get_total_battery_full_charges read) (\<lambda>v. return_op (PyInt v))"

text \<open>A client's lifetime: the getters a caller invokes, one after the other.\<close>

fun poll :: "'s read_register \<Rightarrow> getter list \<Rightarrow> 's \<Rightarrow> 's" where
  "poll read [] s = s"
| "poll read (g # gs) s = poll read gs (snd (run_getter g read s))"

section \<open>The instrument object and its constructor\<close>

datatype parity = PARITY_NONE | PARITY_EVEN | PARITY_ODD | PARITY_MARK | PARITY_SPACE

datatype modbus_mode = MODE_RTU | MODE_ASCII

record serial_port =
  baudrate :: int
  bytesize :: int
  parity :: parity
  stopbits :: int
  timeout :: int

text \<open>
  The attributes of the object that the class touches, and \<open>bus\<close>: whatever else the object
  and the device behind the port hold.
\<close>

record 'b instrument =
  serial :: serial_port
  mode :: modbus_mode
  clear_buffers_before_each_transaction :: bool
  bus :: 'b

text \<open>
  \<^verbatim>\<open>__init__\<close>.  The constructor of the base class, \<^verbatim>\<open>super().__init__(portname,
  slaveaddress)\<close>, is the parameter \<open>super_init\<close>: it builds the object or raises.
\<close>

definition init ::
  "(string \<Rightarrow> int \<Rightarrow> error + 'b instrument) \<Rightarrow> string \<Rightarrow> int \<Rightarrow> error + 'b instrument" where
  "init super_init portname slaveaddress =
     (case super_init portname slaveaddress of
        Inl e \<Rightarrow> Inl e
      | Inr self \<Rightarrow>
          (let self = self\<lparr>serial := (serial self)\<lparr>baudrate := 9600\<rparr>\<rparr>;
               self = self\<lparr>serial := (serial self)\<lparr>bytesize := 8\<rparr>\<rparr>;
               self = self\<lparr>serial := (serial self)\<lparr>parity := PARITY_NONE\<rparr>\<rparr>;
               self = self\<lparr>serial := (serial self)\<lparr>stopbits := 1\<rparr>\<rparr>;
               self = self\<lparr>serial := (serial self)\<lparr>timeout := 1\<rparr>\<rparr>;
               self = self\<lparr>mode := MODE_RTU\<rparr>;
               self = self\<lparr>clear_buffers_before_each_transaction := True\<rparr>
           in Inr self))"

section \<open>The retriable register client\<close>

text \<open>
  \<^verbatim>\<open>renogymodbus/retriable_instrument.py\<close>, which defines \<^verbatim>\<open>retriable_read_register\<close>, is
  not part of the sources verified here.  The definitions of this section follow the design
  document's description of it instead.
\<close>

text \<open>
  Modelled from the spec: the request of the missing \<^verbatim>\<open>retriable_instrument.py\<close>: register
  address, function code (3 for holding, 4 for input registers) and the number of 16-bit
  registers asked for.
\<close>

record register_request =
  register_address :: int
  function_code :: int
  quantity :: nat

text \<open>
  Modelled from the spec: the retry policy of the missing \<^verbatim>\<open>retriable_instrument.py\<close>: the
  maximum number of attempts, the delay between two attempts, and the device exception codes
  that the policy chooses to retry.
\<close>

record retry_policy =
  max_attempts :: nat
  inter_attempt_delay :: nat
  retriable_exception_codes :: "nat list"

text \<open>
  Modelled from the spec: one full request/response exchange of the missing
  \<^verbatim>\<open>retriable_instrument.py\<close> (frame codec and transport session together).  It acts on the
  world behind the port and yields the words of the response or an error.
\<close>

type_synonym 'b exchange = "register_request \<Rightarrow> 'b \<Rightarrow> (error + 16 word list) \<times> 'b"

text \<open>
  Modelled from the spec: the classification of error kinds of the missing
  \<^verbatim>\<open>retriable_instrument.py\<close>.  Transport and frame errors are transient and always eligible
  for retry; an encoding error is never retried; whether a device exception is retried is the
  policy's choice, by exception code.
\<close>

fun retriable :: "retry_policy \<Rightarrow> error \<Rightarrow> bool" where
  "retriable p EncodingError = False"
| "retriable p (TransportError k) = True"
| "retriable p (FrameError r) = True"
| "retriable p (DeviceExceptionError c) = List.member (retriable_exception_codes p) c"
| "retriable p ValueError = False"
| "retriable p UnicodeDecodeError = False"

text \<open>
  Modelled from the spec: the decoding of the words read, of the missing
  \<^verbatim>\<open>retriable_instrument.py\<close>: big-endian concatenation across the words.
\<close>

definition words_to_int :: "16 word list \<Rightarrow> int" where
  "words_to_int ws = foldl (\<lambda>acc w. acc * 65536 + uint w) 0 ws"

text \<open>
  Modelled from the spec: the attempt loop of the missing \<^verbatim>\<open>retriable_instrument.py\<close>.
  \<open>n\<close> is the number of attempts already made.  One exchange is performed; a success
  returns at once; a failure of a retriable kind is retried while attempts remain (the wait
  between two attempts changes nothing but the time); any other failure, and the failure of
  the last attempt, is surfaced as it is.
\<close>

function attempt_loop ::
  "retry_policy \<Rightarrow> 'b exchange \<Rightarrow> register_request \<Rightarrow> nat \<Rightarrow> 'b \<Rightarrow> (error + int) \<times> 'b" where
  "attempt_loop p exch req n b =
     (case exch req b of
        (Inr ws, b') \<Rightarrow> (Inr (words_to_int ws), b')
      | (Inl e, b') \<Rightarrow>
          if retriable p e \<and> Suc n < max_attempts p
          then attempt_loop p exch req (Suc n) b'
          else (Inl e, b'))"
  by pat_completeness auto
termination
  by (relation "measure (\<lambda>(p, exch, req, n, b). max_attempts p - n)") auto

declare attempt_loop.simps [simp del]

text \<open>
  Modelled from the spec: \<^verbatim>\<open>retriable_read_register\<close> of the missing
  \<^verbatim>\<open>retriable_instrument.py\<close>.  It builds the request for one register and runs the attempt
  loop; \<open>number_of_decimals\<close> and \<open>signed\<close> are accepted and not applied.
\<close>

definition retriable_read_register ::
  "retry_policy \<Rightarrow> 'b exchange \<Rightarrow> 'b instrument read_register" where
  "retriable_read_register p exch registeraddress number_of_decimals functioncode signed' self =
     (let req = \<lparr>register_address = registeraddress, function_code = functioncode,
                 quantity = 1\<rparr>
      in case attempt_loop p exch req 0 (bus self) of
           (r, b') \<Rightarrow> (r, self\<lparr>bus := b'\<rparr>))"

section \<open>Observers and simulated devices\<close>

text \<open>An exchange that also counts how often it is performed.\<close>

definition counting :: "'b exchange \<Rightarrow> (nat \<times> 'b) exchange" where
  "counting exch req cb =
     (case cb of (n, b) \<Rightarrow> (case exch req b of (r, b') \<Rightarrow> (r, (Suc n, b'))))"

text \<open>A read primitive that also records the arguments of every call.\<close>

record call =
  call_registeraddress :: int
  call_number_of_decimals :: int
  call_functioncode :: int
  call_signed :: bool

definition logging :: "'s read_register \<Rightarrow> (call list \<times> 's) read_register" where
  "logging read reg decimals fc sg ls =
     (case ls of (log, s) \<Rightarrow>
        (case read reg decimals fc sg s of (r, s') \<Rightarrow>
           (r, (log @ [\<lparr>call_registeraddress = reg, call_number_of_decimals = decimals,
                         call_functioncode = fc, call_signed = sg\<rparr>], s'))))"

text \<open>
  A device given by the content of its registers: a read of a listed register yields its
  word, a read of any other raises the device exception 2 (illegal data address).
\<close>

definition register_file_read :: "(int \<times> 16 word) list \<Rightarrow> 's read_register" where
  "register_file_read regs reg decimals fc sg s =
     (case map_of regs reg of
        None \<Rightarrow> (Inl (DeviceExceptionError 2), s)
      | Some w \<Rightarrow> (Inr (uint w), s))"

definition register_file_exchange :: "(int \<times> 16 word) list \<Rightarrow> 'b exchange" where
  "register_file_exchange regs req b =
     (case map_of regs (register_address req) of
        None \<Rightarrow> (Inl (DeviceExceptionError 2), b)
      | Some w \<Rightarrow> (Inr [w], b))"

text \<open>A line on which nothing ever answers.\<close>

definition silent_exchange :: "'b exchange" where
  "silent_exchange req b = (Inl (TransportError Timeout), b)"

text \<open>A device every register of which holds the word \<open>w\<close>.\<close>

definition constant_exchange :: "16 word \<Rightarrow> 'b exchange" where
  "constant_exchange w req b = (Inr [w], b)"

text \<open>A policy of three attempts that retries no device exception.\<close>

definition three_attempts :: retry_policy where
  "three_attempts = \<lparr>max_attempts = 3, inter_attempt_delay = 1, retriable_exception_codes = []\<rparr>"

text \<open>
  An object as a base-class constructor might leave it, with \<open>b\<close> behind its port, and
  that constructor.
\<close>

definition blank_instrument :: "'b \<Rightarrow> 'b instrument" where
  "blank_instrument b =
     \<lparr>serial = \<lparr>baudrate = 19200, bytesize = 7, parity = PARITY_EVEN, stopbits = 2,
                timeout = 0\<rparr>,
      mode = MODE_ASCII, clear_buffers_before_each_transaction = False, bus = b\<rparr>"

definition blank_init :: "'b \<Rightarrow> string \<Rightarrow> int \<Rightarrow> error + 'b instrument" where
  "blank_init b portname slaveaddress = Inr (blank_instrument b)"

section \<open>Specification vocabulary\<close>

text \<open>
  What a caller obtains by reading the given registers one after the other, each with
  function code 3, unsigned and without decimals: the values in register order, or the first
  error.
\<close>

fun read_each :: "'s read_register \<Rightarrow> int list \<Rightarrow> ('s, int list) action" where
  "read_each read [] = return_op []"
| "read_each read (reg # regs) =
     bind_op (read reg 0 3 False) (\<lambda>v.
       bind_op (read_each read regs) (\<lambda>vs. return_op (v # vs)))"

text \<open>
  The design document's byte assembly: each 16-bit word split into its high byte and its low
  byte, appended in register order.
\<close>

definition spec_word_bytes :: "16 word \<Rightarrow> byte list" where
  "spec_word_bytes w = [ucast (drop_bit 8 w), ucast w]"

definition spec_assemble :: "16 word list \<Rightarrow> byte list" where
  "spec_assemble ws = concat (map spec_word_bytes ws)"

text \<open>The two bytes that the loop appends for the value \<open>v\<close> of one read.\<close>

definition int_bytes :: "int \<Rightarrow> byte list" where
  "int_bytes v = [word_of_int (drop_bit 8 (v AND 0xFF00)), word_of_int (v AND 0x00FF)]"

text \<open>
  Two register files for the model name: one that spells a name (two blanks, then
  \<^verbatim>\<open>RNG-CTRL-RVR40\<close>) and one whose registers are all ones.
\<close>

definition model_registers :: "(int \<times> 16 word) list" where
  "model_registers =
     [(0x0C, 0x2020), (0x0D, 0x524E), (0x0E, 0x472D), (0x0F, 0x4354),
      (0x10, 0x524C), (0x11, 0x2D52), (0x12, 0x5652), (0x13, 0x3430)]"

definition erased_registers :: "(int \<times> 16 word) list" where
  "erased_registers =
     [(0x0C, 0xFFFF), (0x0D, 0xFFFF), (0x0E, 0xFFFF), (0x0F, 0xFFFF),
      (0x10, 0xFFFF), (0x11, 0xFFFF), (0x12, 0xFFFF), (0x13, 0xFFFF),
      (0x18, 0xFFFF), (0x19, 0xFFFF)]"

section \<open>Basic facts\<close>

lemma bind_op_Inr: "m s = (Inr v, s') \<Longrightarrow> bind_op m f s = f v s'"
  by (simp add: bind_op_def)

lemma flag_bit: "(drop_bit n (x::int) AND 1 = 1) = bit x n"
  by (simp add: bit_iff_odd_drop_bit and_one_eq mod_2_eq_odd)

lemma uint_high_magnitude:
  "drop_bit 8 (uint (w :: 16 word)) AND 0x7F = uint (drop_bit 8 w AND 0x7F)"
  by (rule bit_eqI) (auto simp add: bit_simps dest: bit_imp_le_length)

section \<open>Temperatures\<close>

text \<open>
  C2.  For every 16-bit word \<open>w\<close> read from register 0x0103, \<open>get_battery_temperature\<close>
  returns \<open>-(w & 0x7F)\<close> if bit 7 of \<open>w\<close> is set and \<open>w & 0x7F\<close> otherwise, and
  \<open>get_controller_temperature\<close> returns \<open>-((w >> 8) & 0x7F)\<close> if bit 15 of \<open>w\<close> is set and
  \<open>(w >> 8) & 0x7F\<close> otherwise: two signed-magnitude values, one from each byte of the word.
\<close>

theorem temperature_signed_magnitude:
  fixes w :: "16 word"
  assumes "read 0x0103 0 3 False s = (Inr (uint w), s')"
  shows "get_battery_temperature read s =
           (Inr (if bit w 7 then - uint (w AND 0x7F) else uint (w AND 0x7F)), s')
       \<and> get_controller_temperature read s =
           (Inr (if bit w 15 then - uint (drop_bit 8 w AND 0x7F)
                 else uint (drop_bit 8 w AND 0x7F)), s')"
proof
  show "get_battery_temperature read s =
           (Inr (if bit w 7 then - uint (w AND 0x7F) else uint (w AND 0x7F)), s')"
    using assms
    by (simp add: get_battery_temperature_def bind_op_def return_op_def Let_def flag_bit
          uint_and bit_simps)
  show "get_controller_temperature read s =
           (Inr (if bit w 15 then - uint (drop_bit 8 w AND 0x7F)
                 else uint (drop_bit 8 w AND 0x7F)), s')"
    using assms
    by (simp add: get_controller_temperature_def bind_op_def return_op_def Let_def flag_bit
          uint_high_magnitude bit_simps)
qed

text \<open>The word 0x8A85 holds \<open>-10\<close> in its high byte and \<open>-5\<close> in its low byte.\<close>

theorem temperature_signed_magnitude_witness:
  "register_file_read [(0x0103, 0x8A85)] 0x0103 0 3 False () = (Inr (uint (0x8A85 :: 16 word)), ())
   \<and> get_battery_temperature (register_file_read [(0x0103, 0x8A85)]) () = (Inr (- 5), ())
   \<and> get_controller_temperature (register_file_read [(0x0103, 0x8A85)]) () = (Inr (- 10), ())"
  using temperature_signed_magnitude
          [of "register_file_read [(0x0103, 0x8A85)]" "()" "0x8A85" "()"]
  by (simp add: register_file_read_def)

text \<open>
  C3 as stated: with the word 0x8005 in register 0x0103, \<open>get_controller_temperature\<close>
  returns \<open>-5\<close>.  It does not: bits 8 to 14 of 0x8005 are zero, so the magnitude is 0, and
  the 5 in the low byte belongs to the battery temperature.
\<close>

theorem controller_temperature_0x8005_counterexample:
  "get_controller_temperature (register_file_read [(0x0103, 0x8005)]) () = (Inr 0, ())
   \<and> get_controller_temperature (register_file_read [(0x0103, 0x8005)]) () \<noteq> (Inr (- 5), ())"
  by (simp add: get_controller_temperature_def bind_op_def return_op_def register_file_read_def)

text \<open>
  C3, amended.  With the word 0x8005 in register 0x0103, \<open>get_controller_temperature\<close>
  returns 0 and \<open>get_battery_temperature\<close> returns \<open>+5\<close>; the word for which
  \<open>get_controller_temperature\<close> returns \<open>-5\<close> is 0x8500 (bit 15 set, magnitude 5 in bits 8
  to 14).  With the word 0x0005, \<open>get_battery_temperature\<close> returns \<open>+5\<close> and
  \<open>get_controller_temperature\<close> returns 0.
\<close>

theorem signed_magnitude_examples:
  assumes "read_a 0x0103 0 3 False sa = (Inr 0x8005, sa')"
      and "read_b 0x0103 0 3 False sb = (Inr 0x8500, sb')"
      and "read_c 0x0103 0 3 False sc = (Inr 0x0005, sc')"
  shows "get_controller_temperature read_a sa = (Inr 0, sa')
       \<and> get_battery_temperature read_a sa = (Inr 5, sa')
       \<and> get_controller_temperature read_b sb = (Inr (- 5), sb')
       \<and> get_battery_temperature read_c sc = (Inr 5, sc')
       \<and> get_controller_temperature read_c sc = (Inr 0, sc')"
  using assms
  by (simp add: get_controller_temperature_def get_battery_temperature_def bind_op_def
        return_op_def)

theorem signed_magnitude_examples_witness:
  "register_file_read [(0x0103, 0x8005)] 0x0103 0 3 False () = (Inr 0x8005, ())
   \<and> register_file_read [(0x0103, 0x8500)] 0x0103 0 3 False () = (Inr 0x8500, ())
   \<and> register_file_read [(0x0103, 0x0005)] 0x0103 0 3 False () = (Inr 0x0005, ())
   \<and> get_battery_temperature (register_file_read [(0x0103, 0x8005)]) () = (Inr 5, ())
   \<and> get_controller_temperature (register_file_read [(0x0103, 0x8500)]) () = (Inr (- 5), ())
   \<and> get_battery_temperature (register_file_read [(0x0103, 0x0005)]) () = (Inr 5, ())"
  using signed_magnitude_examples
          [of "register_file_read [(0x0103, 0x8005)]" "()" "()"
              "register_file_read [(0x0103, 0x8500)]" "()" "()"
              "register_file_read [(0x0103, 0x0005)]" "()" "()"]
  by (simp add: register_file_read_def)

section \<open>Getters that return what they read\<close>

text \<open>
  C6.  \<open>get_battery_state_of_charge\<close> hands back what the read of register 0x0100 with
  function code 3, unsigned, yields: whatever raw value \<open>v\<close> the read returns, the getter
  returns the integer \<open>v\<close> unchanged (no scaling, no masking, no shifting), and leaves the
  state the read left.  In particular the raw word 42 comes back as the integer 42.
\<close>

theorem battery_state_of_charge_unscaled:
  assumes "read 0x0100 0 3 False s = (Inr v, s')"
  shows "get_battery_state_of_charge read s = (Inr v, s')"
  using assms by (simp add: get_battery_state_of_charge_def)

text \<open>The scenario's word 42, and the word 200, which a mask with 0x7F would change.\<close>

theorem battery_state_of_charge_unscaled_witness:
  "register_file_read [(0x0100, 42)] 0x0100 0 3 False () = (Inr 42, ())
   \<and> get_battery_state_of_charge (register_file_read [(0x0100, 42)]) () = (Inr 42, ())
   \<and> register_file_read [(0x0100, 200)] 0x0100 0 3 False () = (Inr 200, ())
   \<and> get_battery_state_of_charge (register_file_read [(0x0100, 200)]) () = (Inr 200, ())"
  using battery_state_of_charge_unscaled
          [where read = "register_file_read [(0x0100, 42)]" and s = "()" and v = 42
             and s' = "()"]
        battery_state_of_charge_unscaled
          [where read = "register_file_read [(0x0100, 200)]" and s = "()" and v = 200
             and s' = "()"]
  by (simp add: register_file_read_def)

text \<open>
  C8.  \<open>get_controller_software_version\<close> returns the pair of the raw words of registers 0x14
  and 0x15, \<open>get_controller_hardware_version\<close> that of registers 0x16 and 0x17: the
  lower-addressed register first, nothing decoded.
\<close>

theorem version_pairs_verbatim:
  assumes "read 0x14 0 3 False s = (Inr a, s1)"
      and "read 0x15 0 3 False s1 = (Inr b, s2)"
      and "read 0x16 0 3 False t = (Inr c, t1)"
      and "read 0x17 0 3 False t1 = (Inr d, t2)"
  shows "get_controller_software_version read s = (Inr (a, b), s2)
       \<and> get_controller_hardware_version read t = (Inr (c, d), t2)"
  using assms
  by (simp add: get_controller_software_version_def get_controller_hardware_version_def
        bind_op_def return_op_def)

theorem version_pairs_verbatim_witness:
  "register_file_read [(0x14, 0x0102), (0x15, 0x0304), (0x16, 0x0A0B), (0x17, 0xFFFF)]
     0x14 0 3 False () = (Inr 0x0102, ())
   \<and> get_controller_software_version
        (register_file_read [(0x14, 0x0102), (0x15, 0x0304), (0x16, 0x0A0B), (0x17, 0xFFFF)]) ()
     = (Inr (0x0102, 0x0304), ())
   \<and> get_controller_hardware_version
        (register_file_read [(0x14, 0x0102), (0x15, 0x0304), (0x16, 0x0A0B), (0x17, 0xFFFF)]) ()
     = (Inr (0x0A0B, 0xFFFF), ())"
  using version_pairs_verbatim
          [of "register_file_read [(0x14, 0x0102), (0x15, 0x0304), (0x16, 0x0A0B), (0x17, 0xFFFF)]"
              "()" "0x0102" "()" "0x0304" "()" "()" "0x0A0B" "()" "0xFFFF" "()"]
  by (simp add: register_file_read_def)

section \<open>Byte assembly and strings\<close>

lemma high_byte_range: "0 \<le> drop_bit 8 ((v::int) AND 0xFF00) \<and> drop_bit 8 (v AND 0xFF00) < 256"
proof -
  have a: "0 \<le> v AND 0xFF00" by simp
  have b: "v AND 0xFF00 \<le> 0xFF00" by (rule AND_upper2) simp
  have c: "drop_bit 8 (v AND 0xFF00) = (v AND 0xFF00) div 256"
    by (simp only: drop_bit_eq_div) simp
  from a b show ?thesis unfolding c by linarith
qed

lemma low_byte_range: "0 \<le> (v::int) AND 0xFF \<and> v AND 0xFF < 256"
proof -
  have "v AND 0xFF \<le> 0xFF" by (rule AND_upper2) simp
  then show ?thesis by simp
qed

lemma append_word:
  "bind_op (lift_result (bytearray_append out (drop_bit 8 (v AND 0xFF00)))) (\<lambda>out'.
     bind_op (lift_result (bytearray_append out' (v AND 0x00FF))) k) s
   = k (out @ int_bytes v) s"
  using high_byte_range [of v] low_byte_range [of v]
  by (simp add: bytearray_append_def lift_result_def bind_op_def return_op_def int_bytes_def)

lemma append_registers_read_each:
  "read_each read regs s = (Inr vs, s') \<Longrightarrow>
   append_registers read regs out s = (Inr (out @ concat (map int_bytes vs)), s')"
proof (induction regs arbitrary: out s vs)
  case Nil
  then show ?case by (simp add: return_op_def)
next
  case (Cons reg regs)
  from Cons.prems obtain v s1 vs' where
    r: "read reg 0 3 False s = (Inr v, s1)" and
    rest: "read_each read regs s1 = (Inr vs', s')" and
    vs: "vs = v # vs'"
    by (auto simp add: bind_op_def return_op_def split: prod.splits sum.splits)
  have "append_registers read (reg # regs) out s =
          bind_op (lift_result (bytearray_append out (drop_bit 8 (v AND 0xFF00)))) (\<lambda>out'.
            bind_op (lift_result (bytearray_append out' (v AND 0x00FF)))
              (append_registers read regs)) s1"
    by (simp only: append_registers.simps
          bind_op_Inr [where m = "read reg 0 3 False" and s = s, OF r])
  also have "\<dots> = append_registers read regs (out @ int_bytes v) s1"
    by (rule append_word)
  also have "\<dots> = (Inr ((out @ int_bytes v) @ concat (map int_bytes vs')), s')"
    by (rule Cons.IH [OF rest])
  finally show ?case by (simp add: vs)
qed

lemma byte_mask: "(0xFF :: int) = mask 8"
  by (simp add: mask_eq_exp_minus_1)

lemma bit_0xFF: "bit (0xFF :: int) n \<longleftrightarrow> n < 8"
proof -
  have "bit (mask 8 :: int) n \<longleftrightarrow> n < 8" by (simp add: bit_mask_iff)
  then show ?thesis by (simp only: byte_mask)
qed

lemma int_bytes_uint: "int_bytes (uint (w :: 16 word)) = spec_word_bytes w"
proof -
  have "(word_of_int (drop_bit 8 (uint w AND 0xFF00)) :: byte) = ucast (drop_bit 8 w)"
    by (rule bit_word_eqI) (auto simp add: bit_simps bit_0xFF)
  moreover have "(word_of_int (uint w AND 0xFF) :: byte) = ucast w"
    by (rule bit_word_eqI) (auto simp add: bit_simps bit_0xFF)
  ultimately show ?thesis by (simp add: int_bytes_def spec_word_bytes_def)
qed

lemma concat_int_bytes_uint: "concat (map int_bytes (map uint ws)) = spec_assemble ws"
  by (simp add: spec_assemble_def int_bytes_uint comp_def)

lemma model_of_read_each:
  assumes "read_each read (range_py 0x0C (0x13 + 1)) s = (Inr (map uint ws), s')"
  shows "get_controller_model read s = (bytearray_decode (spec_assemble ws), s')"
proof -
  have "append_registers read (range_py 0x0C (0x13 + 1)) [] s = (Inr (spec_assemble ws), s')"
    using append_registers_read_each [OF assms, of "[]"]
    by (simp only: concat_int_bytes_uint append_Nil)
  then show ?thesis
    unfolding get_controller_model_def
    by (simp add: bind_op_def lift_result_def raise_op_def return_op_def split: sum.splits)
qed

text \<open>
  C5.  For any sequence of 16-bit words read from consecutive registers, the loop appends each
  word's high byte and then its low byte, in register order, and the string getter interprets
  the bytes as UTF-8; \<open>get_controller_model\<close> is this rule on the eight registers 0x0C to
  0x13, and the words 0x4142, 0x4344 give the string \<^verbatim>\<open>ABCD\<close>.
\<close>

theorem multi_register_string_assembly:
  assumes "read_each read regs s = (Inr (map uint ws), s')"
  shows "append_registers read regs [] s = (Inr (spec_assemble ws), s')
       \<and> bind_op (append_registers read regs []) (\<lambda>output. lift_result (bytearray_decode output)) s
           = (bytearray_decode (spec_assemble ws), s')
       \<and> (regs = range_py 0x0C (0x13 + 1) \<longrightarrow>
            get_controller_model read s = (bytearray_decode (spec_assemble ws), s'))
       \<and> (ws = [0x4142, 0x4344] \<longrightarrow>
            bind_op (append_registers read regs []) (\<lambda>output. lift_result (bytearray_decode output)) s
              = (Inr (str_of ''ABCD''), s'))"
proof -
  have a: "append_registers read regs [] s = (Inr (spec_assemble ws), s')"
    using append_registers_read_each [OF assms, of "[]"]
    by (simp only: concat_int_bytes_uint append_Nil)
  have b: "bind_op (append_registers read regs []) (\<lambda>output. lift_result (bytearray_decode output)) s
           = (bytearray_decode (spec_assemble ws), s')"
    using a
    by (simp add: bind_op_def lift_result_def raise_op_def return_op_def split: sum.splits)
  have c: "regs = range_py 0x0C (0x13 + 1) \<longrightarrow>
            get_controller_model read s = (bytearray_decode (spec_assemble ws), s')"
  proof
    assume "regs = range_py 0x0C (0x13 + 1)"
    with assms show "get_controller_model read s = (bytearray_decode (spec_assemble ws), s')"
      by (simp only: model_of_read_each)
  qed
  have d: "bytearray_decode (spec_assemble [0x4142, 0x4344]) = Inr (str_of ''ABCD'')"
    by (simp add: bytearray_decode_def spec_assemble_def spec_word_bytes_def str_of_def)
  from a b c d show ?thesis by simp
qed

theorem multi_register_string_assembly_witness:
  "read_each (register_file_read model_registers) (range_py 0x0C (0x13 + 1)) ()
     = (Inr (map uint ([0x2020, 0x524E, 0x472D, 0x4354, 0x524C, 0x2D52, 0x5652, 0x3430] :: 16 word list)), ())
   \<and> get_controller_model (register_file_read model_registers) ()
     = (Inr (str_of ''  RNG-CTRL-RVR40''), ())
   \<and> read_each (register_file_read [(0x0C, 0x4142), (0x0D, 0x4344)]) [0x0C, 0x0D] ()
     = (Inr (map uint ([0x4142, 0x4344] :: 16 word list)), ())
   \<and> bind_op (append_registers (register_file_read [(0x0C, 0x4142), (0x0D, 0x4344)]) [0x0C, 0x0D] [])
        (\<lambda>output. lift_result (bytearray_decode output)) ()
     = (Inr (str_of ''ABCD''), ())"
proof -
  have h1: "read_each (register_file_read model_registers) (range_py 0x0C (0x13 + 1)) ()
     = (Inr (map uint ([0x2020, 0x524E, 0x472D, 0x4354, 0x524C, 0x2D52, 0x5652, 0x3430] :: 16 word list)), ())"
    by (simp add: range_py_def register_file_read_def model_registers_def bind_op_def
          return_op_def)
  have h2: "read_each (register_file_read [(0x0C, 0x4142), (0x0D, 0x4344)]) [0x0C, 0x0D] ()
     = (Inr (map uint ([0x4142, 0x4344] :: 16 word list)), ())"
    by (simp add: register_file_read_def bind_op_def return_op_def)
  have d: "bytearray_decode (spec_assemble [0x2020, 0x524E, 0x472D, 0x4354, 0x524C, 0x2D52, 0x5652, 0x3430])
        = Inr (str_of ''  RNG-CTRL-RVR40'')"
    by (simp add: bytearray_decode_def spec_assemble_def spec_word_bytes_def str_of_def)
  from multi_register_string_assembly [OF h1]
  have m: "get_controller_model (register_file_read model_registers) ()
     = (bytearray_decode (spec_assemble [0x2020, 0x524E, 0x472D, 0x4354, 0x524C, 0x2D52, 0x5652, 0x3430]), ())"
    by blast
  from multi_register_string_assembly [OF h2]
  have e: "bind_op (append_registers (register_file_read [(0x0C, 0x4142), (0x0D, 0x4344)]) [0x0C, 0x0D] [])
        (\<lambda>output. lift_result (bytearray_decode output)) ()
     = (Inr (str_of ''ABCD''), ())"
    by blast
  from h1 m h2 e show ?thesis by (simp only: d)
qed

text \<open>
  C10.  \<open>get_controller_model\<close> is not total over the register contents: when all eight
  registers hold 0xFFFF the assembled bytes are not UTF-8 and the getter raises
  \<open>UnicodeDecodeError\<close>; \<open>get_controller_serial_number\<close> returns the assembled bytes of
  its two registers as they are, whatever the words.
\<close>

theorem controller_model_decode_not_total:
  assumes "read_each read (range_py 0x0C (0x13 + 1)) s
             = (Inr (map uint ([0xFFFF, 0xFFFF, 0xFFFF, 0xFFFF, 0xFFFF, 0xFFFF, 0xFFFF, 0xFFFF] :: 16 word list)), s')"
      and "read_each read' (range_py 0x18 (0x19 + 1)) t = (Inr (map uint ws), t')"
  shows "get_controller_model read s = (Inl UnicodeDecodeError, s')
       \<and> get_controller_serial_number read' t = (Inr (spec_assemble ws), t')"
proof
  have "bytearray_decode (spec_assemble [0xFFFF, 0xFFFF, 0xFFFF, 0xFFFF, 0xFFFF, 0xFFFF, 0xFFFF, 0xFFFF])
          = Inl UnicodeDecodeError"
    by (simp add: bytearray_decode_def spec_assemble_def spec_word_bytes_def)
  with model_of_read_each [OF assms(1)]
  show "get_controller_model read s = (Inl UnicodeDecodeError, s')" by simp
  show "get_controller_serial_number read' t = (Inr (spec_assemble ws), t')"
    unfolding get_controller_serial_number_def
    using append_registers_read_each [OF assms(2), of "[]"]
    by (simp only: concat_int_bytes_uint append_Nil)
qed

theorem controller_model_decode_not_total_witness:
  "read_each (register_file_read erased_registers) (range_py 0x0C (0x13 + 1)) ()
     = (Inr (map uint ([0xFFFF, 0xFFFF, 0xFFFF, 0xFFFF, 0xFFFF, 0xFFFF, 0xFFFF, 0xFFFF] :: 16 word list)), ())
   \<and> read_each (register_file_read erased_registers) (range_py 0x18 (0x19 + 1)) ()
     = (Inr (map uint ([0xFFFF, 0xFFFF] :: 16 word list)), ())
   \<and> get_controller_model (register_file_read erased_registers) () = (Inl UnicodeDecodeError, ())
   \<and> get_controller_serial_number (register_file_read erased_registers) ()
     = (Inr [0xFF, 0xFF, 0xFF, 0xFF], ())"
proof -
  have h1: "read_each (register_file_read erased_registers) (range_py 0x0C (0x13 + 1)) ()
     = (Inr (map uint ([0xFFFF, 0xFFFF, 0xFFFF, 0xFFFF, 0xFFFF, 0xFFFF, 0xFFFF, 0xFFFF] :: 16 word list)), ())"
    by (simp add: range_py_def register_file_read_def erased_registers_def bind_op_def
          return_op_def)
  have h2: "read_each (register_file_read erased_registers) (range_py 0x18 (0x19 + 1)) ()
     = (Inr (map uint ([0xFFFF, 0xFFFF] :: 16 word list)), ())"
    by (simp add: range_py_def register_file_read_def erased_registers_def bind_op_def
          return_op_def)
  have b: "spec_assemble [0xFFFF, 0xFFFF] = [0xFF, 0xFF, 0xFF, 0xFF]"
    by (simp add: spec_assemble_def spec_word_bytes_def)
  show ?thesis
    using controller_model_decode_not_total [OF h1 h2] h1 h2 b by simp
qed


section \<open>The calls the getters make\<close>

subsection \<open>What holds of a state before a getter holds after it\<close>

lemma bind_op_invariant:
  assumes "I (snd (m s))" and "\<And>v t. I t \<Longrightarrow> I (snd (f v t))"
  shows "I (snd (bind_op m f s))"
proof (cases "m s")
  case (Pair r t)
  with assms(1) have t: "I t" by simp
  show ?thesis
  proof (cases r)
    case (Inl e)
    with Pair t show ?thesis by (simp add: bind_op_def)
  next
    case (Inr v)
    with Pair assms(2) [OF t, of v] show ?thesis by (simp add: bind_op_def)
  qed
qed

lemma return_op_invariant: "I s \<Longrightarrow> I (snd (return_op v s))"
  by (simp add: return_op_def)

lemma lift_result_invariant: "I s \<Longrightarrow> I (snd (lift_result r s))"
  by (cases r) (simp_all add: lift_result_def raise_op_def return_op_def)

lemma append_registers_invariant:
  assumes "\<And>reg h t. I t \<Longrightarrow> I (snd (read reg h 3 False t))" and "I s"
  shows "I (snd (append_registers read regs out s))"
  using assms(2)
proof (induction regs arbitrary: out s)
  case Nil
  then show ?case by (simp add: return_op_def)
next
  case (Cons reg regs)
  show ?case
    unfolding append_registers.simps
    by (intro bind_op_invariant [where I = I] lift_result_invariant [where I = I]
          assms(1) Cons.prems Cons.IH)
qed

lemma run_getter_invariant:
  assumes "\<And>reg h t. I t \<Longrightarrow> I (snd (read reg h 3 False t))" and "I s"
  shows "I (snd (run_getter g read s))"
  by (cases g; simp only: run_getter.simps)
     (unfold get_controller_voltage_rating_def get_controller_current_rating_def
        get_controller_discharge_rating_def get_controller_type_def get_controller_model_def
        get_controller_software_version_def get_controller_hardware_version_def
        get_controller_serial_number_def get_controller_modbus_address_def
        get_solar_voltage_def get_solar_current_def get_solar_power_def get_load_voltage_def
        get_load_current_def get_load_power_def get_battery_voltage_def get_battery_current_def
        get_battery_state_of_charge_def get_battery_temperature_def
        get_controller_temperature_def get_maximum_solar_power_today_def
        get_minimum_solar_power_today_def get_maximum_battery_voltage_today_def
        get_minimum_battery_voltage_today_def get_maximum_charge_current_today_def
        get_maximum_load_current_today_def get_charge_today_def get_discharge_today_def
        get_charge_energy_today_def get_discharge_energy_today_def get_controller_uptime_def
        get_total_battery_overcharges_def get_total_battery_full_charges_def Let_def,
      (intro bind_op_invariant [where I = I] return_op_invariant [where I = I]
         lift_result_invariant [where I = I] append_registers_invariant [where I = I]
         assms | assumption)+)

subsection \<open>Every getter reads at least once\<close>

lemma bind_op_mono:
  fixes m :: "'s \<Rightarrow> nat"
  assumes "m s \<le> m (snd (p s))" and "\<And>v t. m t \<le> m (snd (f v t))"
  shows "m s \<le> m (snd (bind_op p f s))"
proof (cases "p s")
  case (Pair r t)
  show ?thesis
  proof (cases r)
    case (Inl e)
    with Pair assms(1) show ?thesis by (simp add: bind_op_def)
  next
    case (Inr v)
    with Pair assms(1) assms(2) [of t v] show ?thesis by (simp add: bind_op_def)
  qed
qed

lemma bind_op_progress:
  fixes m :: "'s \<Rightarrow> nat"
  assumes "m s < m (snd (p s))" and "\<And>v t. m t \<le> m (snd (f v t))"
  shows "m s < m (snd (bind_op p f s))"
proof (cases "p s")
  case (Pair r t)
  show ?thesis
  proof (cases r)
    case (Inl e)
    with Pair assms(1) show ?thesis by (simp add: bind_op_def)
  next
    case (Inr v)
    with Pair assms(1) assms(2) [of t v] show ?thesis by (simp add: bind_op_def)
  qed
qed

lemma return_op_mono: "m t \<le> m (snd (return_op v t))" for m :: "'s \<Rightarrow> nat"
  by (simp add: return_op_def)

lemma lift_result_mono: "m t \<le> m (snd (lift_result r t))" for m :: "'s \<Rightarrow> nat"
  by (cases r) (simp_all add: lift_result_def raise_op_def return_op_def)

lemma append_registers_mono:
  fixes m :: "'s \<Rightarrow> nat"
  assumes "\<And>reg h t. m t < m (snd (read reg h 3 False t))"
  shows "m s \<le> m (snd (append_registers read regs out s))"
proof (induction regs arbitrary: out s)
  case Nil
  show ?case by (simp add: return_op_def)
next
  case (Cons reg regs)
  show ?case
    unfolding append_registers.simps
    by (intro bind_op_mono [where m = m] lift_result_mono [where m = m]
          less_imp_le [OF assms] Cons.IH)
qed

lemma append_registers_progress:
  fixes m :: "'s \<Rightarrow> nat"
  assumes "\<And>reg h t. m t < m (snd (read reg h 3 False t))" and "regs \<noteq> []"
  shows "m s < m (snd (append_registers read regs out s))"
proof (cases regs)
  case Nil
  with assms(2) show ?thesis by simp
next
  case (Cons reg regs')
  show ?thesis
    unfolding Cons append_registers.simps
    by (intro bind_op_progress [where m = m] bind_op_mono [where m = m]
          lift_result_mono [where m = m] assms(1)
          append_registers_mono [where m = m and read = read, OF assms(1)])
qed

lemma run_getter_progress:
  fixes m :: "'s \<Rightarrow> nat"
  assumes "\<And>reg h t. m t < m (snd (read reg h 3 False t))"
  shows "m s < m (snd (run_getter g read s))"
proof -
  have r1: "range_py 0x0C (0x13 + 1) \<noteq> []" by (simp add: range_py_def)
  have r2: "range_py 0x18 (0x19 + 1) \<noteq> []" by (simp add: range_py_def)
  show ?thesis
  by (cases g; simp only: run_getter.simps)
     (unfold get_controller_voltage_rating_def get_controller_current_rating_def
        get_controller_discharge_rating_def get_controller_type_def get_controller_model_def
        get_controller_software_version_def get_controller_hardware_version_def
        get_controller_serial_number_def get_controller_modbus_address_def
        get_solar_voltage_def get_solar_current_def get_solar_power_def get_load_voltage_def
        get_load_current_def get_load_power_def get_battery_voltage_def get_battery_current_def
        get_battery_state_of_charge_def get_battery_temperature_def
        get_controller_temperature_def get_maximum_solar_power_today_def
        get_minimum_solar_power_today_def get_maximum_battery_voltage_today_def
        get_minimum_battery_voltage_today_def get_maximum_charge_current_today_def
        get_maximum_load_current_today_def get_charge_today_def get_discharge_today_def
        get_charge_energy_today_def get_discharge_energy_today_def get_controller_uptime_def
        get_total_battery_overcharges_def get_total_battery_full_charges_def Let_def,
      (intro bind_op_progress [where m = m] bind_op_mono [where m = m]
         return_op_mono [where m = m] lift_result_mono [where m = m]
         append_registers_progress [where m = m] less_imp_le [OF assms] assms r1 r2)+)
qed


lemma logging_appends:
  "fst (snd (logging read reg h fc sg (log, s))) =
     log @ [\<lparr>call_registeraddress = reg, call_number_of_decimals = h,
              call_functioncode = fc, call_signed = sg\<rparr>]"
  by (simp add: logging_def split: prod.splits)

text \<open>
  C9.  Every getter calls the read primitive, and every call it makes has function code 3
  (read holding register) and \<open>signed = False\<close>: the calls recorded while any getter runs
  are at least one, and all of this form.
\<close>

theorem getters_read_holding_unsigned:
  assumes "run_getter g (logging read) ([], s) = (r, (log, s'))"
  shows "log \<noteq> [] \<and> (\<forall>c \<in> set log. call_functioncode c = 3 \<and> \<not> call_signed c)"
proof
  have "length (fst ([] :: call list, s)) < length (fst (snd (run_getter g (logging read) ([], s))))"
  proof (rule run_getter_progress [where m = "\<lambda>ls. length (fst ls)"])
    fix reg h and t :: "call list \<times> 'a"
    show "length (fst t) < length (fst (snd (logging read reg h 3 False t)))"
      by (cases t) (simp add: logging_appends)
  qed
  with assms show "log \<noteq> []" by simp
next
  have "\<forall>c \<in> set (fst (snd (run_getter g (logging read) ([], s)))).
          call_functioncode c = 3 \<and> \<not> call_signed c"
  proof (rule run_getter_invariant
      [where I = "\<lambda>ls. \<forall>c \<in> set (fst ls). call_functioncode c = 3 \<and> \<not> call_signed c"])
    fix reg h and t :: "call list \<times> 'a"
    assume "\<forall>c \<in> set (fst t). call_functioncode c = 3 \<and> \<not> call_signed c"
    then show "\<forall>c \<in> set (fst (snd (logging read reg h 3 False t))).
                 call_functioncode c = 3 \<and> \<not> call_signed c"
      by (cases t) (simp add: logging_appends)
  next
    show "\<forall>c \<in> set (fst ([] :: call list, s)). call_functioncode c = 3 \<and> \<not> call_signed c"
      by simp
  qed
  with assms show "\<forall>c \<in> set log. call_functioncode c = 3 \<and> \<not> call_signed c" by simp
qed

theorem getters_read_holding_unsigned_witness:
  "run_getter Controller_software_version
       (logging (register_file_read [(0x14, 0x0102), (0x15, 0x0304)])) ([], ())
     = (Inr (PyTuple (0x0102, 0x0304)),
        ([\<lparr>call_registeraddress = 0x14, call_number_of_decimals = 0, call_functioncode = 3,
            call_signed = False\<rparr>,
          \<lparr>call_registeraddress = 0x15, call_number_of_decimals = 0, call_functioncode = 3,
            call_signed = False\<rparr>], ()))
   \<and> list_all (\<lambda>c. call_functioncode c = 3 \<and> \<not> call_signed c)
        [\<lparr>call_registeraddress = 0x14, call_number_of_decimals = 0, call_functioncode = 3,
            call_signed = False\<rparr>,
          \<lparr>call_registeraddress = 0x15, call_number_of_decimals = 0, call_functioncode = 3,
            call_signed = False\<rparr>]"
proof -
  have h: "run_getter Controller_software_version
       (logging (register_file_read [(0x14, 0x0102), (0x15, 0x0304)])) ([], ())
     = (Inr (PyTuple (0x0102, 0x0304)),
        ([\<lparr>call_registeraddress = 0x14, call_number_of_decimals = 0, call_functioncode = 3,
            call_signed = False\<rparr>,
          \<lparr>call_registeraddress = 0x15, call_number_of_decimals = 0, call_functioncode = 3,
            call_signed = False\<rparr>], ()))"
    by (simp add: get_controller_software_version_def bind_op_def return_op_def logging_def
          register_file_read_def)
  from getters_read_holding_unsigned [OF h] h show ?thesis
    by (simp only: list_all_iff) simp
qed

section \<open>The serial settings\<close>

lemma poll_invariant:
  assumes "\<And>reg h t. I t \<Longrightarrow> I (snd (read reg h 3 False t))" and "I s"
  shows "I (poll read gs s)"
  using assms(2)
proof (induction gs arbitrary: s)
  case Nil
  then show ?case by simp
next
  case (Cons g gs)
  have "I (snd (run_getter g read s))"
  proof (rule run_getter_invariant [where I = I])
    show "I t \<Longrightarrow> I (snd (read reg h 3 False t))" for reg h t by (rule assms(1))
    show "I s" by (rule Cons.prems)
  qed
  then show ?case by (simp add: Cons.IH)
qed

lemma init_settings:
  assumes "init super_init portname slaveaddress = Inr self"
  shows "serial self = \<lparr>baudrate = 9600, bytesize = 8, parity = PARITY_NONE, stopbits = 1,
                          timeout = 1\<rparr>
       \<and> mode self = MODE_RTU \<and> clear_buffers_before_each_transaction self"
proof (cases "super_init portname slaveaddress")
  case (Inl e)
  with assms show ?thesis by (simp add: init_def)
next
  case (Inr base)
  with assms have "self = base
      \<lparr>serial := (serial base)\<lparr>baudrate := 9600, bytesize := 8, parity := PARITY_NONE,
                                 stopbits := 1, timeout := 1\<rparr>,
       mode := MODE_RTU, clear_buffers_before_each_transaction := True\<rparr>"
    by (simp add: init_def Let_def)
  then show ?thesis by (cases "serial base") simp
qed

text \<open>
  C7.  After construction, and after any sequence of getter calls, the serial link has 8 data
  bits, no parity, 1 stop bit, a read timeout of 1 second and 9600 baud, the mode is Modbus
  RTU, and clearing the buffers before each transaction is switched on.  The getters touch the
  object through the read primitive only, which is assumed to leave these attributes alone
  when called as the getters call it.
\<close>

theorem serial_settings_invariant:
  fixes read :: "'b instrument read_register"
  assumes "init super_init portname slaveaddress = Inr self"
      and "\<And>reg h t. serial (snd (read reg h 3 False t)) = serial t
             \<and> mode (snd (read reg h 3 False t)) = mode t
             \<and> clear_buffers_before_each_transaction (snd (read reg h 3 False t))
                 = clear_buffers_before_each_transaction t"
  shows "bytesize (serial (poll read gs self)) = 8
       \<and> parity (serial (poll read gs self)) = PARITY_NONE
       \<and> stopbits (serial (poll read gs self)) = 1
       \<and> timeout (serial (poll read gs self)) = 1
       \<and> baudrate (serial (poll read gs self)) = 9600
       \<and> mode (poll read gs self) = MODE_RTU
       \<and> clear_buffers_before_each_transaction (poll read gs self)"
proof -
  let ?I = "\<lambda>t. serial t = \<lparr>baudrate = 9600, bytesize = 8, parity = PARITY_NONE, stopbits = 1,
                              timeout = 1\<rparr>
       \<and> mode t = MODE_RTU \<and> clear_buffers_before_each_transaction t"
  have "?I (poll read gs self)"
  proof (rule poll_invariant [where I = ?I])
    fix reg h and t :: "'b instrument"
    assume "?I t"
    with assms(2) [of reg h t] show "?I (snd (read reg h 3 False t))" by simp
  next
    show "?I self" using init_settings [OF assms(1)] .
  qed
  then show ?thesis by simp
qed

text \<open>The retriable read of the design document writes the \<open>bus\<close> only.\<close>

lemma retriable_read_register_frame:
  "serial (snd (retriable_read_register p exch reg h fc sg t)) = serial t
   \<and> mode (snd (retriable_read_register p exch reg h fc sg t)) = mode t
   \<and> clear_buffers_before_each_transaction (snd (retriable_read_register p exch reg h fc sg t))
       = clear_buffers_before_each_transaction t"
  by (simp add: retriable_read_register_def Let_def split: prod.splits)

theorem serial_settings_invariant_witness:
  "init (blank_init (0 :: nat, ())) ''/dev/ttyUSB0'' 1
     = Inr \<lparr>serial = \<lparr>baudrate = 9600, bytesize = 8, parity = PARITY_NONE, stopbits = 1,
                      timeout = 1\<rparr>,
            mode = MODE_RTU, clear_buffers_before_each_transaction = True, bus = (0, ())\<rparr>
   \<and> serial (poll (retriable_read_register three_attempts (counting (register_file_exchange model_registers)))
         [Controller_model, Battery_temperature, Controller_model]
         \<lparr>serial = \<lparr>baudrate = 9600, bytesize = 8, parity = PARITY_NONE, stopbits = 1,
                      timeout = 1\<rparr>,
            mode = MODE_RTU, clear_buffers_before_each_transaction = True, bus = (0, ())\<rparr>)
     = \<lparr>baudrate = 9600, bytesize = 8, parity = PARITY_NONE, stopbits = 1, timeout = 1\<rparr>
   \<and> mode (poll (retriable_read_register three_attempts (counting (register_file_exchange model_registers)))
         [Controller_model, Battery_temperature, Controller_model]
         \<lparr>serial = \<lparr>baudrate = 9600, bytesize = 8, parity = PARITY_NONE, stopbits = 1,
                      timeout = 1\<rparr>,
            mode = MODE_RTU, clear_buffers_before_each_transaction = True, bus = (0, ())\<rparr>)
     = MODE_RTU
   \<and> clear_buffers_before_each_transaction
        (poll (retriable_read_register three_attempts (counting (register_file_exchange model_registers)))
         [Controller_model, Battery_temperature, Controller_model]
         \<lparr>serial = \<lparr>baudrate = 9600, bytesize = 8, parity = PARITY_NONE, stopbits = 1,
                      timeout = 1\<rparr>,
            mode = MODE_RTU, clear_buffers_before_each_transaction = True, bus = (0, ())\<rparr>)"
proof -
  have h: "init (blank_init (0 :: nat, ())) ''/dev/ttyUSB0'' 1
     = Inr \<lparr>serial = \<lparr>baudrate = 9600, bytesize = 8, parity = PARITY_NONE, stopbits = 1,
                      timeout = 1\<rparr>,
            mode = MODE_RTU, clear_buffers_before_each_transaction = True, bus = (0, ())\<rparr>"
    by (simp add: init_def blank_init_def blank_instrument_def)
  from serial_settings_invariant
         [where read = "retriable_read_register three_attempts
                          (counting (register_file_exchange model_registers))"
            and gs = "[Controller_model, Battery_temperature, Controller_model]",
          OF h retriable_read_register_frame]
  show ?thesis
    using h by (simp add: serial_port.equality)
qed

section \<open>The retry bound and the unused arguments\<close>

lemma attempt_loop_all_timeouts:
  assumes "\<And>req b. fst (exch req b) = Inl (TransportError Timeout)"
  shows "n < max_attempts p \<Longrightarrow>
         fst (attempt_loop p (counting exch) req n (c, b)) = Inl (TransportError Timeout)
         \<and> fst (snd (attempt_loop p (counting exch) req n (c, b))) = c + (max_attempts p - n)"
proof (induction "max_attempts p - n" arbitrary: n c b)
  case 0
  then show ?case by simp
next
  case (Suc k)
  obtain b' where e: "exch req b = (Inl (TransportError Timeout), b')"
    using assms [of req b] by (cases "exch req b") simp
  show ?case
  proof (cases "Suc n < max_attempts p")
    case True
    from Suc.hyps(2) have k: "k = max_attempts p - Suc n" by simp
    have "attempt_loop p (counting exch) req n (c, b)
            = attempt_loop p (counting exch) req (Suc n) (Suc c, b')"
      using True e by (subst attempt_loop.simps) (simp add: counting_def)
    with Suc.hyps(1) [OF k True, of "Suc c" b'] True show ?thesis by simp
  next
    case False
    with Suc.prems have m: "max_attempts p = Suc n" by simp
    have "attempt_loop p (counting exch) req n (c, b) = (Inl (TransportError Timeout), (Suc c, b'))"
      using False e by (subst attempt_loop.simps) (simp add: counting_def)
    with m show ?thesis by simp
  qed
qed

text \<open>
  C1.  If every exchange fails with \<open>Timeout\<close>, \<open>retriable_read_register\<close> performs exactly
  \<open>max_attempts\<close> exchanges (the counter of the counting exchange moves from \<open>c\<close> to
  \<open>c + max_attempts\<close>) and then fails with that error; no value is returned.  The policy
  allows at least one attempt.
\<close>

theorem retry_bound_all_timeouts:
  assumes "0 < max_attempts p"
      and "\<And>req b. fst (exch req b) = Inl (TransportError Timeout)"
      and "bus self = (c, b)"
  shows "fst (retriable_read_register p (counting exch) reg decimals fc sg self)
           = Inl (TransportError Timeout)
       \<and> fst (bus (snd (retriable_read_register p (counting exch) reg decimals fc sg self)))
           = c + max_attempts p"
  using attempt_loop_all_timeouts
          [where exch = exch and n = 0 and p = p and c = c and b = b
             and req = "\<lparr>register_address = reg, function_code = fc, quantity = 1\<rparr>",
           OF assms(2) assms(1)]
        assms(3)
  by (auto simp add: retriable_read_register_def Let_def split: prod.splits)

theorem retry_bound_all_timeouts_witness:
  "0 < max_attempts three_attempts
   \<and> fst (silent_exchange \<lparr>register_address = 0x0100, function_code = 3, quantity = 1\<rparr> ())
       = Inl (TransportError Timeout)
   \<and> fst (retriable_read_register three_attempts (counting silent_exchange) 0x0100 0 3 False
            (blank_instrument (0, ())))
       = Inl (TransportError Timeout)
   \<and> fst (bus (snd (retriable_read_register three_attempts (counting silent_exchange) 0x0100 0 3
                      False (blank_instrument (0, ())))))
       = 3"
  using retry_bound_all_timeouts
          [where p = three_attempts and exch = silent_exchange
             and self = "blank_instrument (0, ())" and c = 0 and b = "()"
             and reg = "0x0100" and decimals = 0 and fc = 3 and sg = False]
  by (simp add: three_attempts_def silent_exchange_def blank_instrument_def)

text \<open>
  C4.  The arguments \<open>number_of_decimals\<close> and \<open>signed\<close> do not affect what the read
  returns, and each getter that passes a nonzero number of decimals returns the raw word \<open>w\<close>
  of the exchange as the integer it is: not divided by a power of ten, not reinterpreted as
  signed.
\<close>

theorem decimals_and_signed_not_applied:
  assumes "\<And>req. fst (exch req (bus self)) = Inr [w]"
  shows "retriable_read_register p exch reg decimals fc sg self
           = retriable_read_register p exch reg 0 fc False self
       \<and> fst (get_solar_voltage (retriable_read_register p exch) self) = Inr (uint w)
       \<and> fst (get_solar_current (retriable_read_register p exch) self) = Inr (uint w)
       \<and> fst (get_load_voltage (retriable_read_register p exch) self) = Inr (uint w)
       \<and> fst (get_load_current (retriable_read_register p exch) self) = Inr (uint w)
       \<and> fst (get_battery_voltage (retriable_read_register p exch) self) = Inr (uint w)
       \<and> fst (get_battery_current (retriable_read_register p exch) self) = Inr (uint w)
       \<and> fst (get_maximum_battery_voltage_today (retriable_read_register p exch) self) = Inr (uint w)
       \<and> fst (get_minimum_battery_voltage_today (retriable_read_register p exch) self) = Inr (uint w)"
proof -
  have r: "fst (retriable_read_register p exch reg' d fc' sg' self) = Inr (uint w)"
    for reg' d fc' sg'
  proof -
    obtain b' where "exch \<lparr>register_address = reg', function_code = fc', quantity = 1\<rparr> (bus self)
                       = (Inr [w], b')"
      using assms [of "\<lparr>register_address = reg', function_code = fc', quantity = 1\<rparr>"]
      by (cases "exch \<lparr>register_address = reg', function_code = fc', quantity = 1\<rparr> (bus self)")
         simp
    then show ?thesis
      by (simp add: retriable_read_register_def Let_def words_to_int_def
            attempt_loop.simps [where n = 0])
  qed
  have "retriable_read_register p exch reg decimals fc sg self
           = retriable_read_register p exch reg 0 fc False self"
    by (simp add: retriable_read_register_def)
  with r show ?thesis
    by (simp add: get_solar_voltage_def get_solar_current_def get_load_voltage_def
          get_load_current_def get_battery_voltage_def get_battery_current_def
          get_maximum_battery_voltage_today_def get_minimum_battery_voltage_today_def)
qed

theorem decimals_and_signed_not_applied_witness:
  "fst (constant_exchange 243 \<lparr>register_address = 0x0107, function_code = 3, quantity = 1\<rparr>
          (bus (blank_instrument ())))
     = Inr [243]
   \<and> fst (get_solar_voltage (retriable_read_register three_attempts (constant_exchange 243))
            (blank_instrument ()))
     = Inr 243
   \<and> fst (get_solar_current (retriable_read_register three_attempts (constant_exchange 243))
            (blank_instrument ()))
     = Inr 243"
  using decimals_and_signed_not_applied
          [where exch = "constant_exchange 243" and self = "blank_instrument ()" and w = 243
             and p = three_attempts]
  by (simp add: constant_exchange_def)

end
